theory Spec2Isabelle
  imports Complex_Main "HOL-Library.AList"
begin

section \<open>Data model of the model store (src/stores/modelStore.ts)\<close>

text \<open>
  The store is a zustand state object that is only changed through \<open>set\<close>. Every
  action below is the state transformer of the corresponding TypeScript function; the
  reply of the backend command that the action awaits is an argument.

  A JavaScript \<open>Record<string, T>\<close> is the association list of its own properties in
  insertion order: \<open>r[k] = v\<close> is \<open>AList.update k v r\<close> (an existing key keeps its
  place, a new one is appended), \<open>delete r[k]\<close> is \<open>AList.delete k r\<close>, and
  \<open>Object.keys(r)\<close> is \<open>map fst r\<close>. The value type \<open>true\<close> of the two
  membership records has one inhabitant and is \<open>unit\<close>.

  The records are plain objects, so a read \<open>r[k]\<close> also finds the members that
  \<open>r\<close> inherits from \<open>Object.prototype\<close>, and the assignment
  \<open>r['__proto__'] = true\<close> calls the inherited setter, which ignores a value that is
  not an object, and creates no property. Both are modelled where \<open>loadModels\<close>
  reads and fills records (\<open>truthy_at\<close>, \<open>plain_assign\<close>). The other
  assignments of the store go through a draft of the immer library, which is not part of
  the sources; \<open>AList.update\<close> is what they do for every id but \<open>__proto__\<close>.

  A JavaScript \<open>number\<close> is a \<open>real\<close>: the arithmetic of the speed estimate is the
  exact one, without the rounding of IEEE doubles.
\<close>

type_synonym 'v Record = "(string \<times> 'v) list"

record DownloadProgress =
  model_id :: string
  downloaded :: real
  total_bytes :: real
  percentage :: real

record DownloadStats =
  startTime :: real
  lastUpdate :: real
  totalDownloaded :: real
  speed :: real

text \<open>
  \<open>ModelInfo\<close> comes from the generated bindings, which are not part of the sources;
  the store reads only \<open>id\<close> and \<open>is_downloading\<close> (\<open>is_downloaded\<close> is read by
  the model dropdown).
\<close>

record ModelInfo =
  info_id :: string
  is_downloaded :: bool
  is_downloading :: bool

record ModelsStore =
  models :: "ModelInfo list"
  currentModel :: string
  downloadingModels :: "unit Record"
  extractingModels :: "unit Record"
  downloadProgress :: "DownloadProgress Record"
  downloadStats :: "DownloadStats Record"
  loading :: bool
  error :: "string option"
  hasAnyModels :: bool
  isFirstRun :: bool
  initialized :: bool

text \<open>
  What awaiting a command of the gateway yields: the result \<open>{status: "ok", data}\<close>,
  the result \<open>{status: "error", error}\<close>, or an exception, which the actions catch
  and render with \<open>`${err}`\<close> (the string carried by \<open>Threw\<close>).
\<close>

datatype 'a reply = Ok 'a | Rejected string | Threw string

definition initial_store :: ModelsStore where
  "initial_store =
     \<lparr>models = [], currentModel = [], downloadingModels = [], extractingModels = [],
      downloadProgress = [], downloadStats = [], loading = True, error = None,
      hasAnyModels = False, isFirstRun = False, initialized = False\<rparr>"

text \<open>\<open>k\<close> is an own property of \<open>r\<close>, that is, one of \<open>Object.keys(r)\<close>.\<close>

definition has_key :: "string \<Rightarrow> 'v Record \<Rightarrow> bool" where
  "has_key k r = (k \<in> set (map fst r))"

section \<open>Internal setters\<close>

definition setModels :: "ModelInfo list \<Rightarrow> ModelsStore \<Rightarrow> ModelsStore" where
  "setModels ms s = s\<lparr>models := ms\<rparr>"

definition setCurrentModel :: "string \<Rightarrow> ModelsStore \<Rightarrow> ModelsStore" where
  "setCurrentModel m s = s\<lparr>currentModel := m\<rparr>"

definition setError :: "string option \<Rightarrow> ModelsStore \<Rightarrow> ModelsStore" where
  "setError e s = s\<lparr>error := e\<rparr>"

definition setLoading :: "bool \<Rightarrow> ModelsStore \<Rightarrow> ModelsStore" where
  "setLoading b s = s\<lparr>loading := b\<rparr>"

section \<open>loadModels\<close>

text \<open>
  The three loops of the \<open>produce\<close> callback of \<open>loadModels\<close>, in the order of
  the source: collect the ids the snapshot marks downloading in the plain object
  \<open>backendDownloading\<close>, add each of its keys to \<open>downloadingModels\<close>, then walk
  over the keys \<open>downloadingModels\<close> has at that moment and delete those for which
  both \<open>!backendDownloading[id]\<close> and \<open>!state.downloadProgress[id]\<close> hold.
\<close>

text \<open>
  The property names of \<open>Object.prototype\<close> (ECMAScript, with its Annex B), which
  every plain object inherits.
\<close>

definition Object_prototype_keys :: "string list" where
  "Object_prototype_keys =
     [''constructor'', ''__defineGetter__'', ''__defineSetter__'', ''hasOwnProperty'',
      ''__lookupGetter__'', ''__lookupSetter__'', ''isPrototypeOf'',
      ''propertyIsEnumerable'', ''toString'', ''valueOf'', ''__proto__'',
      ''toLocaleString'']"

text \<open>
  Whether \<open>r[k]\<close> is truthy, as \<open>!r[k]\<close> tests it: the own properties of the
  records hold \<open>true\<close> or an object, and the inherited members are functions (an
  object for \<open>__proto__\<close>).
\<close>

definition truthy_at :: "'v Record \<Rightarrow> string \<Rightarrow> bool" where
  "truthy_at r k = (map_of r k \<noteq> None \<or> k \<in> set Object_prototype_keys)"

text \<open>\<open>r[k] = v\<close> on a plain object, for a value \<open>v\<close> that is not an object.\<close>

definition plain_assign :: "string \<Rightarrow> 'v \<Rightarrow> 'v Record \<Rightarrow> 'v Record" where
  "plain_assign k v r = (if k = ''__proto__'' then r else AList.update k v r)"

definition backendDownloading :: "ModelInfo list \<Rightarrow> unit Record" where
  "backendDownloading data =
     fold (\<lambda>m acc. plain_assign (info_id m) () acc) (filter is_downloading data) []"

definition merge_backend :: "unit Record \<Rightarrow> unit Record \<Rightarrow> unit Record" where
  "merge_backend bd dm = fold (\<lambda>k acc. AList.update k () acc) (map fst bd) dm"

definition remove_stale ::
  "unit Record \<Rightarrow> DownloadProgress Record \<Rightarrow> unit Record \<Rightarrow> unit Record" where
  "remove_stale bd prog dm =
     fold (\<lambda>k acc. if \<not> truthy_at bd k \<and> \<not> truthy_at prog k
                    then AList.delete k acc else acc)
          (map fst dm) dm"

definition sync_downloading :: "ModelInfo list \<Rightarrow> ModelsStore \<Rightarrow> ModelsStore" where
  "sync_downloading data s =
     (let bd = backendDownloading data
      in s\<lparr>downloadingModels :=
             remove_stale bd (downloadProgress s) (merge_backend bd (downloadingModels s))\<rparr>)"

definition loadModels :: "ModelInfo list reply \<Rightarrow> ModelsStore \<Rightarrow> ModelsStore" where
  "loadModels r s =
     (let s' = (case r of
                  Ok data \<Rightarrow> sync_downloading data (s\<lparr>models := data, error := None\<rparr>)
                | Rejected e \<Rightarrow> s\<lparr>error := Some (''Failed to load models: '' @ e)\<rparr>
                | Threw e \<Rightarrow> s\<lparr>error := Some (''Failed to load models: '' @ e)\<rparr>)
      in s'\<lparr>loading := False\<rparr>)"

section \<open>loadCurrentModel, checkFirstRun, selectModel\<close>

text \<open>A rejected reply is ignored; an exception is written to the console only.\<close>

definition loadCurrentModel :: "string reply \<Rightarrow> ModelsStore \<Rightarrow> ModelsStore" where
  "loadCurrentModel r s =
     (case r of Ok m \<Rightarrow> s\<lparr>currentModel := m\<rparr> | Rejected e \<Rightarrow> s | Threw e \<Rightarrow> s)"

definition checkFirstRun :: "bool reply \<Rightarrow> ModelsStore \<Rightarrow> ModelsStore \<times> bool" where
  "checkFirstRun r s =
     (case r of
        Ok hasModels \<Rightarrow> (s\<lparr>hasAnyModels := hasModels, isFirstRun := \<not> hasModels\<rparr>, \<not> hasModels)
      | Rejected e \<Rightarrow> (s, False)
      | Threw e \<Rightarrow> (s, False))"

definition selectModel :: "unit reply \<Rightarrow> string \<Rightarrow> ModelsStore \<Rightarrow> ModelsStore \<times> bool" where
  "selectModel r modelId s =
     (let s0 = s\<lparr>error := None\<rparr>
      in case r of
           Ok u \<Rightarrow> (s0\<lparr>currentModel := modelId, isFirstRun := False, hasAnyModels := True\<rparr>, True)
         | Rejected e \<Rightarrow> (s0\<lparr>error := Some (''Failed to switch to model: '' @ e)\<rparr>, False)
         | Threw e \<Rightarrow> (s0\<lparr>error := Some (''Failed to switch to model: '' @ e)\<rparr>, False))"

section \<open>downloadModel\<close>

text \<open>
  The part before the \<open>await\<close>: the error is cleared and the optimistic entries are
  written. The part after it: a failure sets the error and deletes the entry of
  \<open>downloadingModels\<close>.
\<close>

definition downloadModel_begin :: "string \<Rightarrow> ModelsStore \<Rightarrow> ModelsStore" where
  "downloadModel_begin modelId s =
     s\<lparr>error := None,
       downloadingModels := AList.update modelId () (downloadingModels s),
       downloadProgress :=
         AList.update modelId
           \<lparr>model_id = modelId, downloaded = 0, total_bytes = 0, percentage = 0\<rparr>
           (downloadProgress s)\<rparr>"

definition downloadModel_failed :: "string \<Rightarrow> string \<Rightarrow> ModelsStore \<Rightarrow> ModelsStore" where
  "downloadModel_failed e modelId s =
     s\<lparr>error := Some (''Failed to download model: '' @ e),
       downloadingModels := AList.delete modelId (downloadingModels s)\<rparr>"

definition downloadModel_end :: "unit reply \<Rightarrow> string \<Rightarrow> ModelsStore \<Rightarrow> ModelsStore \<times> bool" where
  "downloadModel_end r modelId s =
     (case r of
        Ok u \<Rightarrow> (s, True)
      | Rejected e \<Rightarrow> (downloadModel_failed e modelId s, False)
      | Threw e \<Rightarrow> (downloadModel_failed e modelId s, False))"

definition downloadModel :: "unit reply \<Rightarrow> string \<Rightarrow> ModelsStore \<Rightarrow> ModelsStore \<times> bool" where
  "downloadModel r modelId s = downloadModel_end r modelId (downloadModel_begin modelId s)"

section \<open>cancelDownload, deleteModel\<close>

text \<open>
  The \<open>produce\<close> callback shared by a confirmed cancel and by the listeners of
  \<open>model-download-complete\<close> and \<open>model-download-cancelled\<close>.
\<close>

definition remove_download :: "string \<Rightarrow> ModelsStore \<Rightarrow> ModelsStore" where
  "remove_download modelId s =
     s\<lparr>downloadingModels := AList.delete modelId (downloadingModels s),
       downloadProgress := AList.delete modelId (downloadProgress s),
       downloadStats := AList.delete modelId (downloadStats s)\<rparr>"

text \<open>
  \<open>cancelDownload\<close> awaits \<open>loadModels\<close> after a confirmed cancel; \<open>lr\<close> is the
  reply that this reload gets.
\<close>

definition cancelDownload ::
  "unit reply \<Rightarrow> ModelInfo list reply \<Rightarrow> string \<Rightarrow> ModelsStore \<Rightarrow> ModelsStore \<times> bool" where
  "cancelDownload r lr modelId s =
     (let s0 = s\<lparr>error := None\<rparr>
      in case r of
           Ok u \<Rightarrow> (loadModels lr (remove_download modelId s0), True)
         | Rejected e \<Rightarrow> (s0\<lparr>error := Some (''Failed to cancel download: '' @ e)\<rparr>, False)
         | Threw e \<Rightarrow> (s0\<lparr>error := Some (''Failed to cancel download: '' @ e)\<rparr>, False))"

definition deleteModel ::
  "unit reply \<Rightarrow> ModelInfo list reply \<Rightarrow> string reply \<Rightarrow> string \<Rightarrow> ModelsStore
     \<Rightarrow> ModelsStore \<times> bool" where
  "deleteModel r lr cr modelId s =
     (let s0 = s\<lparr>error := None\<rparr>
      in case r of
           Ok u \<Rightarrow> (loadCurrentModel cr (loadModels lr s0), True)
         | Rejected e \<Rightarrow> (s0\<lparr>error := Some (''Failed to delete model: '' @ e)\<rparr>, False)
         | Threw e \<Rightarrow> (s0\<lparr>error := Some (''Failed to delete model: '' @ e)\<rparr>, False))"

section \<open>The event listeners\<close>

subsection \<open>model-download-progress\<close>

text \<open>
  The constants of the listener, with \<open>current\<close> the stored statistics, \<open>progress\<close>
  the payload and \<open>now\<close> the value of \<open>Date.now()\<close> in milliseconds.
\<close>

definition timeDiff :: "DownloadStats \<Rightarrow> real \<Rightarrow> real" where
  "timeDiff current now = (now - lastUpdate current) / 1000"

definition bytesDiff :: "DownloadStats \<Rightarrow> DownloadProgress \<Rightarrow> real" where
  "bytesDiff current progress = downloaded progress - totalDownloaded current"

definition currentSpeed :: "DownloadStats \<Rightarrow> DownloadProgress \<Rightarrow> real \<Rightarrow> real" where
  "currentSpeed current progress now =
     bytesDiff current progress / (1024 * 1024) / timeDiff current now"

definition validCurrentSpeed :: "DownloadStats \<Rightarrow> DownloadProgress \<Rightarrow> real \<Rightarrow> real" where
  "validCurrentSpeed current progress now = max 0 (currentSpeed current progress now)"

definition smoothedSpeed :: "DownloadStats \<Rightarrow> DownloadProgress \<Rightarrow> real \<Rightarrow> real" where
  "smoothedSpeed current progress now =
     (if speed current > 0
      then speed current * 0.8 + validCurrentSpeed current progress now * 0.2
      else validCurrentSpeed current progress now)"

definition update_stats ::
  "DownloadProgress \<Rightarrow> real \<Rightarrow> DownloadStats Record \<Rightarrow> DownloadStats Record" where
  "update_stats progress now stats =
     (case map_of stats (model_id progress) of
        None \<Rightarrow>
          AList.update (model_id progress)
            \<lparr>startTime = now, lastUpdate = now,
             totalDownloaded = downloaded progress, speed = 0\<rparr> stats
      | Some current \<Rightarrow>
          if timeDiff current now > 0.5
          then AList.update (model_id progress)
                 \<lparr>startTime = startTime current, lastUpdate = now,
                  totalDownloaded = downloaded progress,
                  speed = max 0 (smoothedSpeed current progress now)\<rparr> stats
          else stats)"

definition on_download_progress :: "DownloadProgress \<Rightarrow> real \<Rightarrow> ModelsStore \<Rightarrow> ModelsStore" where
  "on_download_progress progress now s =
     s\<lparr>downloadProgress := AList.update (model_id progress) progress (downloadProgress s),
       downloadStats := update_stats progress now (downloadStats s)\<rparr>"

subsection \<open>The other listeners\<close>

text \<open>
  A listener changes the state at once and may call \<open>loadModels\<close> and
  \<open>loadCurrentModel\<close> without awaiting them; the calls it makes are returned beside
  the state.
\<close>

datatype refresh = LoadModels | LoadCurrentModel

definition on_download_complete :: "string \<Rightarrow> ModelsStore \<Rightarrow> ModelsStore \<times> refresh list" where
  "on_download_complete modelId s = (remove_download modelId s, [LoadModels])"

definition on_download_cancelled :: "string \<Rightarrow> ModelsStore \<Rightarrow> ModelsStore \<times> refresh list" where
  "on_download_cancelled modelId s = (remove_download modelId s, [])"

definition on_extraction_started :: "string \<Rightarrow> ModelsStore \<Rightarrow> ModelsStore \<times> refresh list" where
  "on_extraction_started modelId s =
     (s\<lparr>extractingModels := AList.update modelId () (extractingModels s)\<rparr>, [])"

definition on_extraction_completed :: "string \<Rightarrow> ModelsStore \<Rightarrow> ModelsStore \<times> refresh list" where
  "on_extraction_completed modelId s =
     (s\<lparr>extractingModels := AList.delete modelId (extractingModels s)\<rparr>, [LoadModels])"

definition on_extraction_failed ::
  "string \<Rightarrow> string \<Rightarrow> ModelsStore \<Rightarrow> ModelsStore \<times> refresh list" where
  "on_extraction_failed modelId e s =
     (s\<lparr>extractingModels := AList.delete modelId (extractingModels s),
        error := Some (''Failed to extract model: '' @ e)\<rparr>, [])"

definition on_model_deleted :: "ModelsStore \<Rightarrow> ModelsStore \<times> refresh list" where
  "on_model_deleted s = (s, [LoadModels, LoadCurrentModel])"

definition on_model_state_changed :: "ModelsStore \<Rightarrow> ModelsStore \<times> refresh list" where
  "on_model_state_changed s = (s, [LoadModels, LoadCurrentModel])"

section \<open>Reachable states\<close>

text \<open>
  The event loop runs one piece of code at a time, and an action gives control away at
  each \<open>await\<close>. An \<open>action\<close> is one such uninterrupted piece: a setter, the part
  of an asynchronous action before or after its \<open>await\<close>, or a listener. The
  statement \<open>set({ error: null })\<close> that opens \<open>selectModel\<close>,
  \<open>cancelDownload\<close> and \<open>deleteModel\<close>, and the \<open>set({ error: ... })\<close> of
  their failure branches, are instances of \<open>SetError\<close>. \<open>Initialized\<close> is
  the \<open>set({ initialized: true })\<close> that ends \<open>initialize\<close>, whose three loads
  are \<open>LoadModelsDone\<close>, \<open>LoadCurrentModelDone\<close> and \<open>CheckFirstRunDone\<close>.
  A state is reachable when it is \<open>run acts\<close> for some list of actions.
\<close>

datatype action =
    SetModels "ModelInfo list"
  | SetCurrentModel string
  | SetError "string option"
  | SetLoading bool
  | LoadModelsDone "ModelInfo list reply"
  | LoadCurrentModelDone "string reply"
  | CheckFirstRunDone "bool reply"
  | SelectModelConfirmed string
  | DownloadModelBegin string
  | DownloadModelEnd "unit reply" string
  | CancelConfirmed string
  | ProgressEvent DownloadProgress real
  | DownloadCompleteEvent string
  | DownloadCancelledEvent string
  | ExtractionStartedEvent string
  | ExtractionCompletedEvent string
  | ExtractionFailedEvent string string
  | ModelDeletedEvent
  | ModelStateChangedEvent
  | Initialized

fun step :: "action \<Rightarrow> ModelsStore \<Rightarrow> ModelsStore" where
  "step (SetModels ms) s = setModels ms s"
| "step (SetCurrentModel m) s = setCurrentModel m s"
| "step (SetError e) s = setError e s"
| "step (SetLoading b) s = setLoading b s"
| "step (LoadModelsDone r) s = loadModels r s"
| "step (LoadCurrentModelDone r) s = loadCurrentModel r s"
| "step (CheckFirstRunDone r) s = fst (checkFirstRun r s)"
| "step (SelectModelConfirmed modelId) s =
     s\<lparr>currentModel := modelId, isFirstRun := False, hasAnyModels := True\<rparr>"
| "step (DownloadModelBegin modelId) s = downloadModel_begin modelId s"
| "step (DownloadModelEnd r modelId) s = fst (downloadModel_end r modelId s)"
| "step (CancelConfirmed modelId) s = remove_download modelId s"
| "step (ProgressEvent progress now) s = on_download_progress progress now s"
| "step (DownloadCompleteEvent modelId) s = fst (on_download_complete modelId s)"
| "step (DownloadCancelledEvent modelId) s = fst (on_download_cancelled modelId s)"
| "step (ExtractionStartedEvent modelId) s = fst (on_extraction_started modelId s)"
| "step (ExtractionCompletedEvent modelId) s = fst (on_extraction_completed modelId s)"
| "step (ExtractionFailedEvent modelId e) s = fst (on_extraction_failed modelId e s)"
| "step ModelDeletedEvent s = fst (on_model_deleted s)"
| "step ModelStateChangedEvent s = fst (on_model_state_changed s)"
| "step Initialized s = s\<lparr>initialized := True\<rparr>"

definition run :: "action list \<Rightarrow> ModelsStore" where
  "run acts = fold step acts initial_store"

section \<open>Facts about records, the merge and the reachable states\<close>

lemma keys_delete: "fst ` set (AList.delete k al) = fst ` set al - {k}"
  by (induction al) auto

lemma has_key_update: "has_key k (AList.update k' v r) \<longleftrightarrow> k = k' \<or> has_key k r"
  by (auto simp: has_key_def dom_update)

lemma has_key_delete: "has_key k (AList.delete k' r) \<longleftrightarrow> k \<noteq> k' \<and> has_key k r"
  by (auto simp: has_key_def keys_delete)

lemma has_key_map_of: "has_key k r \<longleftrightarrow> map_of r k \<noteq> None"
  by (simp add: has_key_def map_of_eq_None_iff)

lemma keys_fold_update:
  "fst ` set (fold (\<lambda>x acc. AList.update (f x) () acc) xs acc) = f ` set xs \<union> fst ` set acc"
  by (induction xs arbitrary: acc) (auto simp: dom_update)

lemma keys_fold_delete:
  "fst ` set (fold (\<lambda>k acc. if P k then AList.delete k acc else acc) ks acc)
     = fst ` set acc - {k \<in> set ks. P k}"
  by (induction ks arbitrary: acc) (auto simp: keys_delete)

lemma keys_fold_plain_assign:
  "fst ` set (fold (\<lambda>x acc. plain_assign (f x) () acc) xs acc)
     = (f ` set xs - {''__proto__''}) \<union> fst ` set acc"
  by (induction xs arbitrary: acc) (auto simp: plain_assign_def dom_update)

lemma has_key_backendDownloading:
  "has_key k (backendDownloading data) \<longleftrightarrow>
     k \<noteq> ''__proto__'' \<and> (\<exists>m \<in> set data. is_downloading m \<and> info_id m = k)"
  unfolding has_key_def backendDownloading_def
  using keys_fold_plain_assign [of info_id "filter is_downloading data" "[]"] by auto

lemma truthy_at_has_key:
  "truthy_at r k \<longleftrightarrow> has_key k r \<or> k \<in> set Object_prototype_keys"
  by (simp add: truthy_at_def has_key_map_of)

lemma has_key_merge_backend:
  "has_key k (merge_backend bd dm) \<longleftrightarrow> has_key k bd \<or> has_key k dm"
  unfolding has_key_def merge_backend_def
  using keys_fold_update [of "\<lambda>k. k" "map fst bd" dm] by auto

lemma has_key_remove_stale:
  "has_key k (remove_stale bd prog dm) \<longleftrightarrow>
     has_key k dm \<and> (truthy_at bd k \<or> truthy_at prog k)"
proof -
  let ?P = "\<lambda>k. \<not> truthy_at bd k \<and> \<not> truthy_at prog k"
  have "fst ` set (remove_stale bd prog dm) = fst ` set dm - {k \<in> set (map fst dm). ?P k}"
    unfolding remove_stale_def by (rule keys_fold_delete)
  then show ?thesis
    by (auto simp: has_key_def)
qed

lemma has_key_loadModels_Ok:
  "has_key k (downloadingModels (loadModels (Ok data) s)) \<longleftrightarrow>
     (k \<noteq> ''__proto__'' \<and> (\<exists>m \<in> set data. is_downloading m \<and> info_id m = k)) \<or>
     (has_key k (downloadingModels s) \<and>
      (has_key k (downloadProgress s) \<or> k \<in> set Object_prototype_keys))"
  by (auto simp: loadModels_def sync_downloading_def Let_def has_key_remove_stale
        has_key_merge_backend truthy_at_has_key has_key_backendDownloading)

lemma run_Nil: "run [] = initial_store" by (simp add: run_def)
lemma run_snoc: "run (acts @ [a]) = step a (run acts)" by (simp add: run_def)

lemma selectModel_run:
  "fst (selectModel r modelId (run acts)) =
     run (acts @ (case r of Ok u \<Rightarrow> [SetError None, SelectModelConfirmed modelId]
                  | Rejected e \<Rightarrow> [SetError None, SetError (Some (''Failed to switch to model: '' @ e))]
                  | Threw e \<Rightarrow> [SetError None, SetError (Some (''Failed to switch to model: '' @ e))]))"
  by (cases r) (simp_all add: run_def selectModel_def setError_def)

lemma downloadModel_run:
  "fst (downloadModel r modelId (run acts)) = run (acts @ [DownloadModelBegin modelId, DownloadModelEnd r modelId])"
  by (simp add: run_def downloadModel_def)

lemma cancelDownload_run:
  "fst (cancelDownload r lr modelId (run acts)) =
     run (acts @ (case r of Ok u \<Rightarrow> [SetError None, CancelConfirmed modelId, LoadModelsDone lr]
                  | Rejected e \<Rightarrow> [SetError None, SetError (Some (''Failed to cancel download: '' @ e))]
                  | Threw e \<Rightarrow> [SetError None, SetError (Some (''Failed to cancel download: '' @ e))]))"
  by (cases r) (simp_all add: run_def cancelDownload_def setError_def)

lemma deleteModel_run:
  "fst (deleteModel r lr cr modelId (run acts)) =
     run (acts @ (case r of Ok u \<Rightarrow> [SetError None, LoadModelsDone lr, LoadCurrentModelDone cr]
                  | Rejected e \<Rightarrow> [SetError None, SetError (Some (''Failed to delete model: '' @ e))]
                  | Threw e \<Rightarrow> [SetError None, SetError (Some (''Failed to delete model: '' @ e))]))"
  by (cases r) (simp_all add: run_def deleteModel_def setError_def)

lemma downloadStats_step:
  "downloadStats (step a s) =
     (case a of ProgressEvent p now \<Rightarrow> update_stats p now (downloadStats s)
      | CancelConfirmed k \<Rightarrow> AList.delete k (downloadStats s)
      | DownloadCompleteEvent k \<Rightarrow> AList.delete k (downloadStats s)
      | DownloadCancelledEvent k \<Rightarrow> AList.delete k (downloadStats s)
      | _ \<Rightarrow> downloadStats s)"
  by (cases a)
     (simp_all add: setModels_def setCurrentModel_def setError_def setLoading_def
        loadModels_def sync_downloading_def Let_def loadCurrentModel_def checkFirstRun_def
        downloadModel_begin_def downloadModel_end_def downloadModel_failed_def
        remove_download_def on_download_progress_def on_download_complete_def
        on_download_cancelled_def on_extraction_started_def on_extraction_completed_def
        on_extraction_failed_def on_model_deleted_def on_model_state_changed_def
        split: reply.splits)

lemma downloadProgress_step:
  "downloadProgress (step a s) =
     (case a of ProgressEvent p now \<Rightarrow> AList.update (model_id p) p (downloadProgress s)
      | DownloadModelBegin k \<Rightarrow>
          AList.update k \<lparr>model_id = k, downloaded = 0, total_bytes = 0, percentage = 0\<rparr>
            (downloadProgress s)
      | CancelConfirmed k \<Rightarrow> AList.delete k (downloadProgress s)
      | DownloadCompleteEvent k \<Rightarrow> AList.delete k (downloadProgress s)
      | DownloadCancelledEvent k \<Rightarrow> AList.delete k (downloadProgress s)
      | _ \<Rightarrow> downloadProgress s)"
  by (cases a)
     (simp_all add: setModels_def setCurrentModel_def setError_def setLoading_def
        loadModels_def sync_downloading_def Let_def loadCurrentModel_def checkFirstRun_def
        downloadModel_begin_def downloadModel_end_def downloadModel_failed_def
        remove_download_def on_download_progress_def on_download_complete_def
        on_download_cancelled_def on_extraction_started_def on_extraction_completed_def
        on_extraction_failed_def on_model_deleted_def on_model_state_changed_def
        split: reply.splits)

lemma has_key_update_stats:
  "has_key k (update_stats p now st) \<longleftrightarrow> k = model_id p \<or> has_key k st"
proof (cases "map_of st (model_id p)")
  case None
  then show ?thesis by (simp add: update_stats_def has_key_update)
next
  case (Some current)
  then have "has_key (model_id p) st" by (simp add: has_key_map_of)
  with Some show ?thesis by (auto simp: update_stats_def has_key_update)
qed

lemma step_stats_have_progress:
  assumes "\<forall>k. has_key k (downloadStats s) \<longrightarrow> has_key k (downloadProgress s)"
  shows "has_key k (downloadStats (step a s)) \<longrightarrow> has_key k (downloadProgress (step a s))"
  using assms
  unfolding downloadStats_step downloadProgress_step
  by (auto simp: has_key_update has_key_delete has_key_update_stats split: action.splits)

lemma speed_update_stats:
  assumes "\<forall>k st. map_of stats k = Some st \<longrightarrow> 0 \<le> speed st"
      and "map_of (update_stats p now stats) k = Some st"
  shows "0 \<le> speed st"
  using assms
  by (auto simp: update_stats_def update_conv' split: option.splits if_splits)

lemma step_speed_nonneg:
  assumes "\<forall>k st. map_of (downloadStats s) k = Some st \<longrightarrow> 0 \<le> speed st"
      and "map_of (downloadStats (step a s)) k = Some st"
  shows "0 \<le> speed st"
  using assms speed_update_stats [of "downloadStats s" _ _ k st]
  unfolding downloadStats_step
  by (auto simp: delete_conv' split: if_splits action.splits)

lemma run_speed_nonneg:
  "map_of (downloadStats (run acts)) k = Some st \<Longrightarrow> 0 \<le> speed st"
proof (induction acts arbitrary: k st rule: rev_induct)
  case Nil
  then show ?case by (simp add: run_Nil initial_store_def)
next
  case (snoc a acts)
  then show ?case using step_speed_nonneg [of "run acts" a k st]
    by (simp add: run_snoc)
qed

lemma fold_update_present:
  "set ks \<subseteq> fst ` set acc \<Longrightarrow> fold (\<lambda>k acc. AList.update k () acc) ks (acc :: unit Record) = acc"
proof (induction ks)
  case Nil
  then show ?case by simp
next
  case (Cons k ks)
  then have "k \<in> fst ` set acc" by simp
  then have "map_of acc k \<noteq> None" by (simp add: map_of_eq_None_iff)
  then have "map_of acc k = Some ()" by auto
  then have "AList.update k () acc = acc" by (rule update_triv)
  with Cons show ?case by simp
qed

lemma fold_delete_none:
  "\<forall>k \<in> set ks. \<not> P k \<Longrightarrow> fold (\<lambda>k acc. if P k then AList.delete k acc else acc) ks acc = acc"
  by (induction ks) simp_all

lemma merge_backend_present:
  assumes "\<forall>k. has_key k bd \<longrightarrow> has_key k dm"
  shows "merge_backend bd dm = dm"
  unfolding merge_backend_def using assms
  by (intro fold_update_present) (auto simp: has_key_def)

lemma remove_stale_fixed:
  assumes "\<forall>k. has_key k dm \<longrightarrow> truthy_at bd k \<or> truthy_at prog k"
  shows "remove_stale bd prog dm = dm"
  unfolding remove_stale_def using assms
  by (intro fold_delete_none) (auto simp: has_key_def)

lemma sync_downloading_idem:
  "sync_downloading data (sync_downloading data s) = sync_downloading data s"
proof -
  let ?bd = "backendDownloading data"
  let ?dm = "remove_stale ?bd (downloadProgress s) (merge_backend ?bd (downloadingModels s))"
  have 1: "merge_backend ?bd ?dm = ?dm"
    by (rule merge_backend_present)
       (simp add: has_key_remove_stale has_key_merge_backend truthy_at_has_key)
  have 2: "remove_stale ?bd (downloadProgress s) ?dm = ?dm"
    by (rule remove_stale_fixed) (simp add: has_key_remove_stale truthy_at_has_key)
  show ?thesis by (simp add: sync_downloading_def Let_def 1 2)
qed

lemma sync_downloading_fields:
  "sync_downloading data (s\<lparr>models := ms, error := e\<rparr>) = (sync_downloading data s)\<lparr>models := ms, error := e\<rparr>"
  "sync_downloading data (s\<lparr>loading := b\<rparr>) = (sync_downloading data s)\<lparr>loading := b\<rparr>"
  by (simp_all add: sync_downloading_def Let_def)

lemma loadModels_idem: "loadModels r (loadModels r s) = loadModels r s"
  by (cases r) (simp_all add: loadModels_def sync_downloading_fields sync_downloading_idem)

lemma loadModels_merge_ordinary_ids:
  assumes "k \<notin> set Object_prototype_keys"
  shows "has_key k (downloadingModels (loadModels (Ok data) s)) \<longleftrightarrow>
           (\<exists>m \<in> set data. is_downloading m \<and> info_id m = k) \<or>
           (has_key k (downloadingModels s) \<and> has_key k (downloadProgress s))"
proof -
  from assms have "k \<noteq> ''__proto__''" by (auto simp: Object_prototype_keys_def)
  with assms show ?thesis by (simp add: has_key_loadModels_Ok)
qed

lemma cancelDownload_Ok_fields:
  "downloadProgress (loadModels lr (remove_download modelId s)) =
     AList.delete modelId (downloadProgress s)"
  "downloadStats (loadModels lr (remove_download modelId s)) =
     AList.delete modelId (downloadStats s)"
  "loading (loadModels lr s) = False"
  by (cases lr; simp add: loadModels_def sync_downloading_def Let_def remove_download_def)+

section \<open>Properties of the store\<close>

text \<open>
  C1. Specified: when \<open>downloadModel\<close> is rejected or throws, the entries of the id in
  \<open>downloadingModels\<close> and \<open>downloadProgress\<close> are as before the call. On the
  initial store, where \<open>m1\<close> has neither entry, a rejected or throwing
  \<open>downloadModel\<close> deletes the entry of \<open>downloadingModels\<close> again, but the zeroed
  entry of \<open>downloadProgress\<close> written before the \<open>await\<close> stays.
\<close>

theorem downloadModel_rejected_keeps_progress:
  "downloadProgress initial_store = [] \<and>
   downloadProgress (fst (downloadModel (Rejected ''disk full'') ''m1'' initial_store)) =
     [(''m1'', \<lparr>model_id = ''m1'', downloaded = 0, total_bytes = 0, percentage = 0\<rparr>)] \<and>
   downloadingModels (fst (downloadModel (Rejected ''disk full'') ''m1'' initial_store)) = [] \<and>
   downloadProgress (fst (downloadModel (Threw ''disk full'') ''m1'' initial_store)) =
     [(''m1'', \<lparr>model_id = ''m1'', downloaded = 0, total_bytes = 0, percentage = 0\<rparr>)] \<and>
   snd (downloadModel (Rejected ''disk full'') ''m1'' initial_store) = False"
  by (simp add: downloadModel_def downloadModel_begin_def downloadModel_end_def
        downloadModel_failed_def initial_store_def)

text \<open>
  C2. Specified: in every reachable state an id has an entry in \<open>downloadProgress\<close> if
  and only if it has one in \<open>downloadStats\<close>. After a confirmed \<open>downloadModel\<close> on
  the initial store \<open>m1\<close> has progress and no statistics: the statistics are first
  written by the progress listener.
\<close>

theorem progress_without_stats_counterexample:
  "\<not> (has_key ''m1'' (downloadProgress
          (run [DownloadModelBegin ''m1'', DownloadModelEnd (Ok ()) ''m1''])) \<longleftrightarrow>
       has_key ''m1'' (downloadStats
          (run [DownloadModelBegin ''m1'', DownloadModelEnd (Ok ()) ''m1''])))"
  by (simp add: run_def has_key_def downloadModel_begin_def downloadModel_end_def
        initial_store_def)

text \<open>
  C2, as amended. In every reachable state, an id that has an entry in
  \<open>downloadStats\<close> has an entry in \<open>downloadProgress\<close>.
\<close>

theorem stats_have_progress:
  "has_key k (downloadStats (run acts)) \<Longrightarrow> has_key k (downloadProgress (run acts))"
proof (induction acts arbitrary: k rule: rev_induct)
  case Nil
  then show ?case by (simp add: run_Nil initial_store_def has_key_def)
next
  case (snoc a acts)
  then show ?case using step_stats_have_progress [of "run acts" k a]
    by (simp add: run_snoc)
qed

theorem stats_have_progress_witness:
  "has_key ''m1'' (downloadStats
      (run [DownloadModelBegin ''m1'',
            ProgressEvent \<lparr>model_id = ''m1'', downloaded = 500, total_bytes = 1000,
                           percentage = 50\<rparr> 1000])) \<and>
   has_key ''m1'' (downloadProgress
      (run [DownloadModelBegin ''m1'',
            ProgressEvent \<lparr>model_id = ''m1'', downloaded = 500, total_bytes = 1000,
                           percentage = 50\<rparr> 1000]))"
proof -
  have h: "has_key ''m1'' (downloadStats
      (run [DownloadModelBegin ''m1'',
            ProgressEvent \<lparr>model_id = ''m1'', downloaded = 500, total_bytes = 1000,
                           percentage = 50\<rparr> 1000]))"
    by (simp add: run_def has_key_def downloadModel_begin_def on_download_progress_def
          update_stats_def initial_store_def)
  from h stats_have_progress [OF h] show ?thesis by simp
qed

text \<open>
  C3. Specified: a successful \<open>loadModels\<close> adds every id that the snapshot marks
  downloading, and removes a member that the snapshot does not mark downloading once it
  has no entry in \<open>downloadProgress\<close>; the comment above the third loop says the same.
  The loop tests \<open>!backendDownloading[id] && !state.downloadProgress[id]\<close>, and both
  reads find the members inherited from \<open>Object.prototype\<close>: the id \<open>constructor\<close>,
  added by a first snapshot, is kept by a second snapshot that no longer marks it
  downloading, although it has no progress entry, where the id \<open>m1\<close> is removed. The
  id \<open>__proto__\<close> is never added, since \<open>backendDownloading['__proto__'] = true\<close>
  creates no key. For the ids that \<open>Object.prototype\<close> does not name the rule holds
  (\<open>loadModels_merge_ordinary_ids\<close>).
\<close>

theorem loadModels_prototype_named_ids:
  "downloadingModels (loadModels
      (Ok [\<lparr>info_id = ''constructor'', is_downloaded = False, is_downloading = True\<rparr>])
      initial_store) = [(''constructor'', ())] \<and>
   downloadProgress (loadModels
      (Ok [\<lparr>info_id = ''constructor'', is_downloaded = False, is_downloading = True\<rparr>])
      initial_store) = [] \<and>
   downloadingModels (loadModels
      (Ok [\<lparr>info_id = ''constructor'', is_downloaded = False, is_downloading = False\<rparr>])
      (loadModels
         (Ok [\<lparr>info_id = ''constructor'', is_downloaded = False, is_downloading = True\<rparr>])
         initial_store)) = [(''constructor'', ())] \<and>
   downloadingModels (loadModels
      (Ok [\<lparr>info_id = ''m1'', is_downloaded = False, is_downloading = False\<rparr>])
      (loadModels
         (Ok [\<lparr>info_id = ''m1'', is_downloaded = False, is_downloading = True\<rparr>])
         initial_store)) = [] \<and>
   downloadingModels (loadModels
      (Ok [\<lparr>info_id = ''__proto__'', is_downloaded = False, is_downloading = True\<rparr>])
      initial_store) = []"
  by (simp add: loadModels_def sync_downloading_def backendDownloading_def merge_backend_def
        remove_stale_def truthy_at_def plain_assign_def Object_prototype_keys_def
        initial_store_def)

text \<open>
  C4. Specified: whatever the reply, \<open>loadCurrentModel\<close> and the \<open>loadModels\<close> that
  the listeners call leave \<open>error\<close> as it was. A rejected \<open>loadModels\<close> on the
  initial store, whose \<open>error\<close> is \<open>null\<close>, sets a message.
\<close>

theorem loadModels_sets_error_counterexample:
  "error (loadModels (Rejected ''offline'') initial_store) \<noteq> error initial_store"
  by (simp add: loadModels_def initial_store_def)

text \<open>
  C4, as amended. \<open>loadCurrentModel\<close> leaves \<open>error\<close> unchanged whatever the reply.
  \<open>loadModels\<close>, which is the function the listeners call, sets \<open>error\<close> to
  \<open>null\<close> on success and to \<open>Failed to load models: ...\<close> when the command is
  rejected or throws.
\<close>

theorem refresh_error_effect:
  "error (loadCurrentModel r s) = error s \<and>
   error (loadModels (Ok data) s) = None \<and>
   error (loadModels (Rejected e) s) = Some (''Failed to load models: '' @ e) \<and>
   error (loadModels (Threw e) s) = Some (''Failed to load models: '' @ e)"
  by (cases r) (simp_all add: loadCurrentModel_def loadModels_def sync_downloading_def Let_def)

text \<open>
  C5. Specified: the instantaneous rate of an accepted sample is
  \<open>max(0, (sample bytes - last total) / elapsed)\<close>. One second after a first sample at 0
  bytes, a sample at 1048576 bytes stores the speed 1 and not 1048576: the listener
  divides the byte difference by \<open>1024 * 1024\<close>, the speed being in MB/s.
\<close>

theorem speed_formula_counterexample:
  "map_of (downloadStats (on_download_progress
       \<lparr>model_id = ''m1'', downloaded = 1048576, total_bytes = 2097152, percentage = 50\<rparr> 1000
       (run [ProgressEvent
               \<lparr>model_id = ''m1'', downloaded = 0, total_bytes = 2097152, percentage = 0\<rparr> 0])))
     ''m1''
   \<noteq> Some \<lparr>startTime = 0, lastUpdate = 1000, totalDownloaded = 1048576,
            speed = max 0 ((1048576 - 0) / ((1000 - 0) / 1000))\<rparr>"
  by (simp add: run_def on_download_progress_def update_stats_def initial_store_def
        timeDiff_def smoothedSpeed_def validCurrentSpeed_def currentSpeed_def bytesDiff_def)

text \<open>
  C5, as amended. For a sample accepted more than 0.5 seconds after the last update, the
  instantaneous rate is \<open>max(0, (sample bytes - last total) / (1024 * 1024) / elapsed)\<close>
  with the elapsed time in seconds; the stored speed is previous speed \<open>* 0.8 +\<close>
  instantaneous rate \<open>* 0.2\<close> when the previous speed is greater than 0 and the
  instantaneous rate otherwise; the time of the last update and the total become those of
  the sample, and the start time is kept.
\<close>

theorem progress_update_speed:
  assumes "map_of (downloadStats s) (model_id progress) = Some current"
      and "0.5 < (now - lastUpdate current) / 1000"
  shows "map_of (downloadStats (on_download_progress progress now s)) (model_id progress) =
           Some \<lparr>startTime = startTime current, lastUpdate = now,
                 totalDownloaded = downloaded progress,
                 speed =
                   (let instantaneous =
                          max 0 ((downloaded progress - totalDownloaded current)
                                   / (1024 * 1024) / ((now - lastUpdate current) / 1000))
                    in if 0 < speed current
                       then speed current * 0.8 + instantaneous * 0.2
                       else instantaneous)\<rparr>"
proof -
  let ?v = "validCurrentSpeed current progress now"
  have v: "0 \<le> ?v" by (simp add: validCurrentSpeed_def)
  have "0 \<le> smoothedSpeed current progress now"
    using v by (simp add: smoothedSpeed_def)
  then have "max 0 (smoothedSpeed current progress now) = smoothedSpeed current progress now"
    by simp
  with assms show ?thesis
    by (simp add: on_download_progress_def update_stats_def timeDiff_def update_conv'
          smoothedSpeed_def validCurrentSpeed_def currentSpeed_def bytesDiff_def Let_def)
qed

theorem progress_update_speed_witness:
  "map_of [(''m1'', \<lparr>startTime = 0, lastUpdate = 1000, totalDownloaded = 1048576, speed = 1\<rparr>)]
      ''m1''
     = Some \<lparr>startTime = 0, lastUpdate = 1000, totalDownloaded = 1048576, speed = 1\<rparr> \<and>
   (0.5::real) < (2000 - 1000) / 1000 \<and>
   map_of (downloadStats (on_download_progress
       \<lparr>model_id = ''m1'', downloaded = 4194304, total_bytes = 8388608, percentage = 50\<rparr> 2000
       (initial_store\<lparr>downloadStats :=
          [(''m1'', \<lparr>startTime = 0, lastUpdate = 1000, totalDownloaded = 1048576,
                     speed = 1\<rparr>)]\<rparr>))) ''m1''
     = Some \<lparr>startTime = 0, lastUpdate = 2000, totalDownloaded = 4194304, speed = 1.4\<rparr>"
  using progress_update_speed
    [of "initial_store\<lparr>downloadStats :=
          [(''m1'', \<lparr>startTime = 0, lastUpdate = 1000, totalDownloaded = 1048576,
                     speed = 1\<rparr>)]\<rparr>"
        "\<lparr>model_id = ''m1'', downloaded = 4194304, total_bytes = 8388608, percentage = 50\<rparr>"
        "\<lparr>startTime = 0, lastUpdate = 1000, totalDownloaded = 1048576, speed = 1\<rparr>" 2000]
  by (simp add: Let_def)

text \<open>
  C6. A progress sample that arrives 0.5 seconds or less after the last accepted one
  (\<open>timeDiff \<le> 0.5\<close>, with \<open>now\<close> and \<open>lastUpdate\<close> in milliseconds) replaces
  the displayed progress of its model and leaves \<open>downloadStats\<close> as it was: the
  smoothed speed, the time of the last update, the running total and the start time of
  every model are unchanged.
\<close>

theorem progress_debounce:
  assumes "map_of (downloadStats s) (model_id progress) = Some current"
      and "(now - lastUpdate current) / 1000 \<le> 0.5"
  shows "downloadStats (on_download_progress progress now s) = downloadStats s \<and>
         map_of (downloadProgress (on_download_progress progress now s)) (model_id progress)
           = Some progress"
  using assms
  by (simp add: on_download_progress_def update_stats_def timeDiff_def update_conv')

theorem progress_debounce_witness:
  "map_of [(''m1'', \<lparr>startTime = 0, lastUpdate = 1000, totalDownloaded = 500, speed = 2\<rparr>)] ''m1''
     = Some \<lparr>startTime = 0, lastUpdate = 1000, totalDownloaded = 500, speed = 2\<rparr> \<and>
   ((1400::real) - 1000) / 1000 \<le> 0.5 \<and>
   downloadStats (on_download_progress
       \<lparr>model_id = ''m1'', downloaded = 900, total_bytes = 1000, percentage = 90\<rparr> 1400
       (initial_store\<lparr>downloadStats :=
          [(''m1'', \<lparr>startTime = 0, lastUpdate = 1000, totalDownloaded = 500, speed = 2\<rparr>)]\<rparr>))
     = [(''m1'', \<lparr>startTime = 0, lastUpdate = 1000, totalDownloaded = 500, speed = 2\<rparr>)]"
  using progress_debounce
    [of "initial_store\<lparr>downloadStats :=
          [(''m1'', \<lparr>startTime = 0, lastUpdate = 1000, totalDownloaded = 500, speed = 2\<rparr>)]\<rparr>"
        "\<lparr>model_id = ''m1'', downloaded = 900, total_bytes = 1000, percentage = 90\<rparr>"
        "\<lparr>startTime = 0, lastUpdate = 1000, totalDownloaded = 500, speed = 2\<rparr>" 1400]
  by simp

text \<open>
  C7. For an accepted sample whose byte count is below the stored total,
  \<open>validCurrentSpeed\<close> is exactly 0, so the stored speed is 0.8 times the previous one
  (0 when there was none); and after a progress event on any reachable state every
  stored speed is at least 0.
\<close>

theorem negative_delta_clamp:
  "(map_of (downloadStats (run acts)) (model_id progress) = Some current \<and>
    0.5 < (now - lastUpdate current) / 1000 \<and>
    downloaded progress < totalDownloaded current \<longrightarrow>
      validCurrentSpeed current progress now = 0 \<and>
      map_of (downloadStats (on_download_progress progress now (run acts))) (model_id progress) =
        Some \<lparr>startTime = startTime current, lastUpdate = now,
              totalDownloaded = downloaded progress,
              speed = (if 0 < speed current then speed current * 0.8 else 0)\<rparr>) \<and>
   (\<forall>k st. map_of (downloadStats (on_download_progress progress now (run acts))) k = Some st
      \<longrightarrow> 0 \<le> speed st)"
proof (intro conjI impI allI)
  assume h: "map_of (downloadStats (run acts)) (model_id progress) = Some current \<and>
    0.5 < (now - lastUpdate current) / 1000 \<and>
    downloaded progress < totalDownloaded current"
  then have "currentSpeed current progress now \<le> 0"
    by (simp add: currentSpeed_def bytesDiff_def timeDiff_def divide_le_0_iff)
  then show v: "validCurrentSpeed current progress now = 0"
    by (simp add: validCurrentSpeed_def)
  from h v show "map_of (downloadStats (on_download_progress progress now (run acts)))
        (model_id progress) =
        Some \<lparr>startTime = startTime current, lastUpdate = now,
              totalDownloaded = downloaded progress,
              speed = (if 0 < speed current then speed current * 0.8 else 0)\<rparr>"
    by (simp add: on_download_progress_def update_stats_def timeDiff_def update_conv'
          smoothedSpeed_def)
next
  fix k st
  assume "map_of (downloadStats (on_download_progress progress now (run acts))) k = Some st"
  then have "map_of (downloadStats (run (acts @ [ProgressEvent progress now]))) k = Some st"
    by (simp add: run_snoc)
  then show "0 \<le> speed st" by (rule run_speed_nonneg)
qed

theorem negative_delta_clamp_witness:
  "map_of (downloadStats
      (run [ProgressEvent \<lparr>model_id = ''m1'', downloaded = 0, total_bytes = 2097152,
                           percentage = 0\<rparr> 0,
            ProgressEvent \<lparr>model_id = ''m1'', downloaded = 1048576, total_bytes = 2097152,
                           percentage = 50\<rparr> 1000])) ''m1''
     = Some \<lparr>startTime = 0, lastUpdate = 1000, totalDownloaded = 1048576, speed = 1\<rparr> \<and>
   (0.5::real) < (2000 - 1000) / 1000 \<and> (524288::real) < 1048576 \<and>
   validCurrentSpeed
      \<lparr>startTime = 0, lastUpdate = 1000, totalDownloaded = 1048576, speed = 1\<rparr>
      \<lparr>model_id = ''m1'', downloaded = 524288, total_bytes = 2097152, percentage = 25\<rparr> 2000 = 0 \<and>
   map_of (downloadStats (on_download_progress
      \<lparr>model_id = ''m1'', downloaded = 524288, total_bytes = 2097152, percentage = 25\<rparr> 2000
      (run [ProgressEvent \<lparr>model_id = ''m1'', downloaded = 0, total_bytes = 2097152,
                           percentage = 0\<rparr> 0,
            ProgressEvent \<lparr>model_id = ''m1'', downloaded = 1048576, total_bytes = 2097152,
                           percentage = 50\<rparr> 1000]))) ''m1''
     = Some \<lparr>startTime = 0, lastUpdate = 2000, totalDownloaded = 524288, speed = 0.8\<rparr> \<and>
   (0::real) \<le> speed \<lparr>startTime = 0, lastUpdate = 2000, totalDownloaded = 524288, speed = 0.8\<rparr>"
proof -
  have h: "map_of (downloadStats
      (run [ProgressEvent \<lparr>model_id = ''m1'', downloaded = 0, total_bytes = 2097152,
                           percentage = 0\<rparr> 0,
            ProgressEvent \<lparr>model_id = ''m1'', downloaded = 1048576, total_bytes = 2097152,
                           percentage = 50\<rparr> 1000])) ''m1''
     = Some \<lparr>startTime = 0, lastUpdate = 1000, totalDownloaded = 1048576, speed = 1\<rparr>"
    by (simp add: run_def on_download_progress_def update_stats_def initial_store_def
          timeDiff_def smoothedSpeed_def validCurrentSpeed_def currentSpeed_def bytesDiff_def)
  show ?thesis
    using h negative_delta_clamp
      [of "[ProgressEvent \<lparr>model_id = ''m1'', downloaded = 0, total_bytes = 2097152,
                           percentage = 0\<rparr> 0,
            ProgressEvent \<lparr>model_id = ''m1'', downloaded = 1048576, total_bytes = 2097152,
                           percentage = 50\<rparr> 1000]"
          "\<lparr>model_id = ''m1'', downloaded = 524288, total_bytes = 2097152, percentage = 25\<rparr>"
          "\<lparr>startTime = 0, lastUpdate = 1000, totalDownloaded = 1048576, speed = 1\<rparr>" 2000]
    by simp
qed

text \<open>
  C8. On every state, the listener of \<open>model-download-complete\<close> run twice in a row
  for the same id gives the state that one run gives: after the first run the id has no
  entry in \<open>downloadingModels\<close>, \<open>downloadProgress\<close> and \<open>downloadStats\<close>, so the
  second run deletes nothing. Each run calls \<open>loadModels\<close>; when both reloads get the
  same reply, the state after them is the one a single delivery and its reload give.
\<close>

theorem download_complete_twice:
  "fst (on_download_complete modelId (fst (on_download_complete modelId s)))
     = fst (on_download_complete modelId s) \<and>
   \<not> has_key modelId (downloadingModels (fst (on_download_complete modelId s))) \<and>
   \<not> has_key modelId (downloadProgress (fst (on_download_complete modelId s))) \<and>
   \<not> has_key modelId (downloadStats (fst (on_download_complete modelId s))) \<and>
   snd (on_download_complete modelId s) = [LoadModels] \<and>
   loadModels lr (loadModels lr
       (fst (on_download_complete modelId (fst (on_download_complete modelId s)))))
     = loadModels lr (fst (on_download_complete modelId s))"
  by (simp add: on_download_complete_def remove_download_def delete_idem has_key_delete
        loadModels_idem)

text \<open>
  C9. When the backend confirms, \<open>cancelDownload\<close> deletes the entries of that id, and
  of no other, from \<open>downloadingModels\<close>, \<open>downloadProgress\<close> and
  \<open>downloadStats\<close>, and then runs \<open>loadModels\<close> on the result and returns true.
  Whatever the reload is answered, \<open>downloadProgress\<close> and \<open>downloadStats\<close> end as
  the former records without that id, and \<open>loading\<close> ends false. A successful reload
  replaces \<open>models\<close>, clears \<open>error\<close> and merges the membership: the members are
  then the ids the snapshot marks downloading and the former members other than the
  cancelled id that have a progress entry (or bear a name of \<open>Object.prototype\<close>). A
  failed reload leaves the membership without that id and sets its message. When the
  cancel command is rejected or throws, the call returns false and the only change to
  the state is the error message.
\<close>

theorem cancelDownload_outcomes:
  "cancelDownload (Ok u) lr modelId s =
     (loadModels lr (remove_download modelId (s\<lparr>error := None\<rparr>)), True) \<and>
   \<not> has_key modelId (downloadingModels (remove_download modelId (s\<lparr>error := None\<rparr>))) \<and>
   \<not> has_key modelId (downloadProgress (fst (cancelDownload (Ok u) lr modelId s))) \<and>
   \<not> has_key modelId (downloadStats (fst (cancelDownload (Ok u) lr modelId s))) \<and>
   remove_download modelId (s\<lparr>error := None\<rparr>) =
     s\<lparr>error := None,
       downloadingModels := AList.delete modelId (downloadingModels s),
       downloadProgress := AList.delete modelId (downloadProgress s),
       downloadStats := AList.delete modelId (downloadStats s)\<rparr> \<and>
   downloadProgress (fst (cancelDownload (Ok u) lr modelId s)) =
     AList.delete modelId (downloadProgress s) \<and>
   downloadStats (fst (cancelDownload (Ok u) lr modelId s)) =
     AList.delete modelId (downloadStats s) \<and>
   loading (fst (cancelDownload (Ok u) lr modelId s)) = False \<and>
   (fst (cancelDownload (Ok u) (Ok data) modelId s))\<lparr>downloadingModels := []\<rparr> =
     s\<lparr>models := data, error := None, loading := False, downloadingModels := [],
       downloadProgress := AList.delete modelId (downloadProgress s),
       downloadStats := AList.delete modelId (downloadStats s)\<rparr> \<and>
   (has_key k (downloadingModels (fst (cancelDownload (Ok u) (Ok data) modelId s))) \<longleftrightarrow>
      (k \<noteq> ''__proto__'' \<and> (\<exists>m \<in> set data. is_downloading m \<and> info_id m = k)) \<or>
      (k \<noteq> modelId \<and> has_key k (downloadingModels s) \<and>
       (has_key k (downloadProgress s) \<or> k \<in> set Object_prototype_keys))) \<and>
   fst (cancelDownload (Ok u) (Rejected e') modelId s) =
     s\<lparr>error := Some (''Failed to load models: '' @ e'), loading := False,
       downloadingModels := AList.delete modelId (downloadingModels s),
       downloadProgress := AList.delete modelId (downloadProgress s),
       downloadStats := AList.delete modelId (downloadStats s)\<rparr> \<and>
   fst (cancelDownload (Ok u) (Threw e') modelId s) =
     s\<lparr>error := Some (''Failed to load models: '' @ e'), loading := False,
       downloadingModels := AList.delete modelId (downloadingModels s),
       downloadProgress := AList.delete modelId (downloadProgress s),
       downloadStats := AList.delete modelId (downloadStats s)\<rparr> \<and>
   cancelDownload (Rejected e) lr modelId s =
     (s\<lparr>error := Some (''Failed to cancel download: '' @ e)\<rparr>, False) \<and>
   cancelDownload (Threw e) lr modelId s =
     (s\<lparr>error := Some (''Failed to cancel download: '' @ e)\<rparr>, False)"
proof -
  let ?s1 = "remove_download modelId (s\<lparr>error := None\<rparr>)"
  have ok: "cancelDownload (Ok u) lr modelId s = (loadModels lr ?s1, True)" for lr
    by (simp add: cancelDownload_def)
  have s1: "?s1 =
     s\<lparr>error := None,
       downloadingModels := AList.delete modelId (downloadingModels s),
       downloadProgress := AList.delete modelId (downloadProgress s),
       downloadStats := AList.delete modelId (downloadStats s)\<rparr>"
    by (simp add: remove_download_def)
  have absent: "\<not> has_key modelId (downloadingModels ?s1)"
    by (simp add: s1 has_key_delete)
  have prog: "downloadProgress (loadModels lr ?s1) = AList.delete modelId (downloadProgress s)"
    by (simp add: cancelDownload_Ok_fields)
  have stats: "downloadStats (loadModels lr ?s1) = AList.delete modelId (downloadStats s)"
    by (simp add: cancelDownload_Ok_fields)
  have load: "loading (loadModels lr ?s1) = False"
    by (simp add: cancelDownload_Ok_fields)
  have rest: "(loadModels (Ok data) ?s1)\<lparr>downloadingModels := []\<rparr> =
     s\<lparr>models := data, error := None, loading := False, downloadingModels := [],
       downloadProgress := AList.delete modelId (downloadProgress s),
       downloadStats := AList.delete modelId (downloadStats s)\<rparr>"
    by (simp add: s1 loadModels_def sync_downloading_def Let_def)
  have members: "has_key k (downloadingModels (loadModels (Ok data) ?s1)) \<longleftrightarrow>
      (k \<noteq> ''__proto__'' \<and> (\<exists>m \<in> set data. is_downloading m \<and> info_id m = k)) \<or>
      (k \<noteq> modelId \<and> has_key k (downloadingModels s) \<and>
       (has_key k (downloadProgress s) \<or> k \<in> set Object_prototype_keys))"
    unfolding has_key_loadModels_Ok by (auto simp: s1 has_key_delete)
  have failed: "loadModels (Rejected e') ?s1 =
     s\<lparr>error := Some (''Failed to load models: '' @ e'), loading := False,
       downloadingModels := AList.delete modelId (downloadingModels s),
       downloadProgress := AList.delete modelId (downloadProgress s),
       downloadStats := AList.delete modelId (downloadStats s)\<rparr>"
    "loadModels (Threw e') ?s1 =
     s\<lparr>error := Some (''Failed to load models: '' @ e'), loading := False,
       downloadingModels := AList.delete modelId (downloadingModels s),
       downloadProgress := AList.delete modelId (downloadProgress s),
       downloadStats := AList.delete modelId (downloadStats s)\<rparr>"
    by (simp_all add: s1 loadModels_def)
  have rejected: "cancelDownload (Rejected e) lr modelId s =
     (s\<lparr>error := Some (''Failed to cancel download: '' @ e)\<rparr>, False)"
    "cancelDownload (Threw e) lr modelId s =
     (s\<lparr>error := Some (''Failed to cancel download: '' @ e)\<rparr>, False)"
    by (simp_all add: cancelDownload_def)
  have absent2: "\<not> has_key modelId (downloadProgress (loadModels lr ?s1))"
    "\<not> has_key modelId (downloadStats (loadModels lr ?s1))"
    by (simp_all add: prog stats has_key_delete)
  show ?thesis
    unfolding ok fst_conv
    using s1 absent absent2 prog stats load rest members failed rejected
    by (intro conjI) (assumption | rule refl)+
qed

theorem cancelDownload_outcomes_witness:
  "has_key ''m2'' (downloadingModels
      (downloadModel_begin ''m2'' (downloadModel_begin ''m1'' initial_store))) \<and>
   has_key ''m2'' (downloadProgress
      (downloadModel_begin ''m2'' (downloadModel_begin ''m1'' initial_store))) \<and>
   downloadingModels (fst (cancelDownload (Ok ())
      (Ok [\<lparr>info_id = ''m1'', is_downloaded = False, is_downloading = False\<rparr>,
           \<lparr>info_id = ''m3'', is_downloaded = False, is_downloading = True\<rparr>])
      ''m1'' (downloadModel_begin ''m2'' (downloadModel_begin ''m1'' initial_store))))
     = [(''m2'', ()), (''m3'', ())] \<and>
   downloadProgress (fst (cancelDownload (Ok ())
      (Ok [\<lparr>info_id = ''m1'', is_downloaded = False, is_downloading = False\<rparr>,
           \<lparr>info_id = ''m3'', is_downloaded = False, is_downloading = True\<rparr>])
      ''m1'' (downloadModel_begin ''m2'' (downloadModel_begin ''m1'' initial_store))))
     = [(''m2'', \<lparr>model_id = ''m2'', downloaded = 0, total_bytes = 0, percentage = 0\<rparr>)] \<and>
   loading (fst (cancelDownload (Ok ())
      (Ok [\<lparr>info_id = ''m1'', is_downloaded = False, is_downloading = False\<rparr>,
           \<lparr>info_id = ''m3'', is_downloaded = False, is_downloading = True\<rparr>])
      ''m1'' (downloadModel_begin ''m2'' (downloadModel_begin ''m1'' initial_store))))
     = False"
  using cancelDownload_outcomes
    [where u = "()" and modelId = "''m1''" and k = "''m2''"
       and lr = "Ok [\<lparr>info_id = ''m1'', is_downloaded = False, is_downloading = False\<rparr>,
                     \<lparr>info_id = ''m3'', is_downloaded = False, is_downloading = True\<rparr>]"
       and data = "[\<lparr>info_id = ''m1'', is_downloaded = False, is_downloading = False\<rparr>,
                    \<lparr>info_id = ''m3'', is_downloaded = False, is_downloading = True\<rparr>]"
       and s = "downloadModel_begin ''m2'' (downloadModel_begin ''m1'' initial_store)"]
  by (simp add: cancelDownload_def remove_download_def loadModels_def sync_downloading_def
        backendDownloading_def merge_backend_def remove_stale_def truthy_at_def
        plain_assign_def Object_prototype_keys_def downloadModel_begin_def has_key_def
        initial_store_def)

text \<open>
  C10. When \<open>hasAnyModelsAvailable\<close> is rejected or throws, \<open>checkFirstRun\<close>
  returns false and the state is unchanged; on a successful reply it sets
  \<open>hasAnyModels\<close> to the returned boolean and \<open>isFirstRun\<close> to its negation, and
  returns that negation.
\<close>

theorem checkFirstRun_outcomes:
  "checkFirstRun (Rejected e) s = (s, False) \<and>
   checkFirstRun (Threw e) s = (s, False) \<and>
   checkFirstRun (Ok hasModels) s =
     (s\<lparr>hasAnyModels := hasModels, isFirstRun := \<not> hasModels\<rparr>, \<not> hasModels) \<and>
   hasAnyModels (fst (checkFirstRun (Ok hasModels) s)) = hasModels \<and>
   isFirstRun (fst (checkFirstRun (Ok hasModels) s)) = (\<not> hasModels)"
  by (simp add: checkFirstRun_def)

end
